theory Spec2Isabelle
  imports Main
begin

section \<open>Wall-clock values\<close>

text \<open>
  The coordinator reads the clock with \<^verbatim>\<open>datetime.datetime.now(...)\<close> and keeps the
  readings in its attributes. A reading is modelled by the seven integer attributes of a
  Python \<^verbatim>\<open>datetime\<close>. All stored timestamps carry the same \<^verbatim>\<open>ZoneInfo\<close> object, and
  Python subtracts two such values field by field, without any time-zone adjustment, so the
  difference below is the one \<^verbatim>\<open>(a - b)\<close> computes.
\<close>

record datetime =
  year :: int
  month :: int
  day :: int
  hour :: int
  minute :: int
  second :: int
  microsecond :: int

definition is_leap :: "int \<Rightarrow> bool" where
  "is_leap y = (y mod 4 = 0 \<and> (y mod 100 \<noteq> 0 \<or> y mod 400 = 0))"

definition days_before_year :: "int \<Rightarrow> int" where
  "days_before_year y = (y - 1) * 365 + (y - 1) div 4 - (y - 1) div 100 + (y - 1) div 400"

definition days_before_month :: "int \<Rightarrow> int \<Rightarrow> int" where
  "days_before_month y m =
     sum_list (take (nat (m - 1)) [31, if is_leap y then 29 else 28, 31, 30, 31, 30, 31, 31, 30, 31, 30, 31])"

definition ymd2ord :: "int \<Rightarrow> int \<Rightarrow> int \<Rightarrow> int" where
  "ymd2ord y m d = days_before_year y + days_before_month y m + d"

definition to_microseconds :: "datetime \<Rightarrow> int" where
  "to_microseconds t =
     (((ymd2ord (year t) (month t) (day t) * 24 + hour t) * 60 + minute t) * 60 + second t) * 1000000
       + microsecond t"

text \<open>
  \<^verbatim>\<open>(a - b).total_seconds()\<close> is the difference in microseconds divided by \<open>10^6\<close>, as a
  float. The code only compares it with the integers 300, 3600 and 10800; the division is
  correctly rounded and monotone, and floats are far denser than one microsecond around
  these values, so \<^verbatim>\<open>total_seconds() >= n\<close> holds exactly when the microsecond difference
  is at least \<open>n * 10^6\<close>. The comparison is modelled in that exact form.
\<close>

definition elapsed_us :: "datetime \<Rightarrow> datetime \<Rightarrow> int" where
  "elapsed_us a b = to_microseconds a - to_microseconds b"

definition total_seconds_ge :: "datetime \<Rightarrow> datetime \<Rightarrow> int \<Rightarrow> bool" where
  "total_seconds_ge a b n = (elapsed_us a b \<ge> n * 1000000)"

section \<open>Timing policy\<close>

text \<open>
  Each of the helper methods reads the clock itself, so one call of
  \<^verbatim>\<open>_should_update_opendata\<close> reads it three times (season, elapsed time, active window)
  and one call of \<^verbatim>\<open>_should_update_portal\<close> twice. Every reading is a parameter of its
  own, in the order the code takes them.
\<close>

definition is_winter_season :: "datetime \<Rightarrow> bool" where
  "is_winter_season now = (month now \<in> {12, 1, 2, 3})"

definition is_opendata_active_window :: "datetime \<Rightarrow> bool" where
  "is_opendata_active_window now = (11 \<le> hour now \<and> hour now < 18)"

definition is_portal_active_window :: "datetime \<Rightarrow> bool" where
  "is_portal_active_window now = (0 \<le> hour now \<and> hour now < 8)"

definition should_update_opendata ::
  "datetime \<Rightarrow> datetime \<Rightarrow> datetime \<Rightarrow> datetime option \<Rightarrow> bool" where
  "should_update_opendata now_season now now_window last_opendata_update =
     (if \<not> is_winter_season now_season then False
      else case last_opendata_update of
        None \<Rightarrow> True
      | Some prev \<Rightarrow>
          if minute now < 5 \<and> hour prev \<noteq> hour now then True
          else if is_opendata_active_window now_window then total_seconds_ge now prev 300
          else total_seconds_ge now prev 3600)"

definition should_update_portal ::
  "datetime \<Rightarrow> datetime \<Rightarrow> datetime option \<Rightarrow> bool" where
  "should_update_portal now now_window last_portal_update =
     (case last_portal_update of
        None \<Rightarrow> True
      | Some prev \<Rightarrow>
          if is_portal_active_window now_window then total_seconds_ge now prev 3600
          else total_seconds_ge now prev 10800)"

section \<open>Exceptions, log records and external objects\<close>

text \<open>
  Both handlers of the coordinator catch subclasses of \<^verbatim>\<open>Exception\<close> only, and tell
  \<^verbatim>\<open>hydroqc.error.HydroQcHTTPError\<close> from everything else. An exception is modelled by that
  distinction and its message. Cancellation of the tick itself (\<^verbatim>\<open>asyncio.CancelledError\<close>,
  not an \<^verbatim>\<open>Exception\<close>) is outside the model.
\<close>

datatype exn = HydroQcHTTPError string | OtherException string

datatype update_failed = UpdateFailed string

datatype log_level = INFO | WARNING | ERROR

type_synonym log_record = "log_level \<times> string"

text \<open>
  The customer, account and contract objects come from the \<^verbatim>\<open>hydroqc\<close> library. Only
  their identity and, for a contract, the outcome of the three \<^verbatim>\<open>isinstance\<close> tests
  matter to the coordinator.
\<close>

type_synonym customer = nat

type_synonym account = nat

record contract =
  contract_ident :: nat
  isinstance_ContractDCPC :: bool
  isinstance_ContractDPC :: bool
  isinstance_ContractDT :: bool

text \<open>
  \<^verbatim>\<open>CONF_AUTH_MODE\<close> is compared with two constants of \<^verbatim>\<open>const.py\<close>; any other
  configured value makes both mode properties false.
\<close>

datatype auth_mode = AUTH_MODE_PORTAL | AUTH_MODE_OPENDATA | AUTH_MODE_unknown

text \<open>
  Background work is started with \<^verbatim>\<open>asyncio.create_task\<close>. The event loop's tasks are a
  list of the coroutine each one runs and its state; a task handle is its position in
  that list. \<^verbatim>\<open>Task.done()\<close> is true of a finished and of a cancelled task.
\<close>

datatype coroutine = async_sync_calendar_events | async_regular_consumption_sync

datatype task_state = Pending | Finished | Cancelled

section \<open>The world of one tick\<close>

text \<open>
  Everything the coordinator obtains from outside during one run of
  \<^verbatim>\<open>_async_update_data\<close>: the clock reading at each place that reads it and the outcome of
  each call into the two clients. An awaited call that returns nothing yields the exception
  it raised, if any; a call that returns a value yields the exception or the value.
\<close>

record world =
  now_local :: datetime
  now_season :: datetime
  now_opendata :: datetime
  now_opendata_window :: datetime
  fetch_peak_data :: "exn option"
  now_opendata_fetched :: datetime
  peak_handler_events :: "nat option"
  now_portal :: datetime
  now_portal_window :: datetime
  check_hq_portal_status :: "exn + bool"
  now_offline :: datetime
  session_expired :: bool
  login :: "exn option"
  get_info :: "exn option"
  fetch_customers_info :: "exn option"
  get_customer :: "exn + customer"
  customer_get_info :: "exn option"
  get_account :: "exn + account"
  get_contract :: "exn + contract"
  get_periods_info :: "exn option"
  refresh_outages :: "exn option"
  set_preheat_duration :: "exn option"
  get_dpc_data :: "exn option"
  peak_handler_refresh_data :: "exn option"
  get_annual_consumption :: "exn option"
  now_portal_fetched :: datetime
  now_utc :: datetime
  now_consumption :: datetime

section \<open>The coordinator\<close>

text \<open>
  The dictionary \<^verbatim>\<open>_async_update_data\<close> returns. Its fourth key, \<^verbatim>\<open>"public_client"\<close>,
  always holds the coordinator's one public client and is left out.
\<close>

record snapshot =
  snap_contract :: "contract option"
  snap_account :: "account option"
  snap_customer :: "customer option"

text \<open>
  The attributes of \<^verbatim>\<open>HydroQcDataCoordinator\<close> that \<^verbatim>\<open>_async_update_data\<close> reads or
  writes, under their names without the leading underscore. \<open>webuser\<close> says whether
  \<^verbatim>\<open>_webuser\<close> holds an object. \<open>options_enable_consumption_sync\<close> and
  \<open>data_enable_consumption_sync\<close> are the two places of the config entry where
  \<^verbatim>\<open>"enable_consumption_sync"\<close> may be set. \<open>tasks\<close> is the event loop's task list,
  \<open>logger\<close> the records written to \<^verbatim>\<open>_LOGGER\<close> at level INFO and above (DEBUG records
  are left out), and \<open>data\<close> the attribute of the base class \<^verbatim>\<open>DataUpdateCoordinator\<close>
  that observers read.
\<close>

record coordinator =
  auth_mode :: auth_mode
  rate :: string
  rate_option :: string
  webuser :: bool
  customer :: "customer option"
  account :: "account option"
  contract :: "contract option"
  last_update_success_time :: "datetime option"
  last_peak_update_hour :: "int option"
  last_opendata_update :: "datetime option"
  last_portal_update :: "datetime option"
  last_consumption_sync :: "datetime option"
  last_peak_events_count :: nat
  portal_last_offline_log :: "datetime option"
  portal_available :: "bool option"
  calendar_entity_id :: "string option"
  calendar_sync_task :: "nat option"
  regular_sync_task :: "nat option"
  options_enable_consumption_sync :: "bool option"
  data_enable_consumption_sync :: "bool option"
  tasks :: "(coroutine \<times> task_state) list"
  logger :: "log_record list"
  data :: "snapshot option"

text \<open>
  \<^verbatim>\<open>__init__\<close>. The calendar entity and the two task handles are set up by the mixins'
  initialisers, which start with no task.
\<close>

definition init :: "auth_mode \<Rightarrow> string \<Rightarrow> string \<Rightarrow> string option \<Rightarrow> bool option \<Rightarrow> bool option \<Rightarrow> coordinator" where
  "init mode r ro cal opt dat =
     \<lparr> auth_mode = mode, rate = r, rate_option = ro,
       webuser = (mode = AUTH_MODE_PORTAL),
       customer = None, account = None, contract = None,
       last_update_success_time = None,
       last_peak_update_hour = None,
       last_opendata_update = None, last_portal_update = None, last_consumption_sync = None,
       last_peak_events_count = 0,
       portal_last_offline_log = None,
       portal_available = None,
       calendar_entity_id = cal,
       calendar_sync_task = None, regular_sync_task = None,
       options_enable_consumption_sync = opt, data_enable_consumption_sync = dat,
       tasks = [], logger = [], data = None \<rparr>"

definition is_portal_mode :: "coordinator \<Rightarrow> bool" where
  "is_portal_mode st = (auth_mode st = AUTH_MODE_PORTAL)"

definition is_opendata_mode :: "coordinator \<Rightarrow> bool" where
  "is_opendata_mode st = (auth_mode st = AUTH_MODE_OPENDATA)"

definition emit :: "log_level \<Rightarrow> string \<Rightarrow> coordinator \<Rightarrow> coordinator" where
  "emit lvl msg st = st\<lparr>logger := logger st @ [(lvl, msg)]\<rparr>"

definition create_task :: "coroutine \<Rightarrow> coordinator \<Rightarrow> nat \<times> coordinator" where
  "create_task co st = (length (tasks st), st\<lparr>tasks := tasks st @ [(co, Pending)]\<rparr>)"

definition task_done :: "coordinator \<Rightarrow> nat \<Rightarrow> bool" where
  "task_done st h = (h < length (tasks st) \<and> snd (tasks st ! h) \<noteq> Pending)"

text \<open>The event loop completing a task between two ticks.\<close>

definition finish_task :: "nat \<Rightarrow> coordinator \<Rightarrow> coordinator" where
  "finish_task h st =
     (if h < length (tasks st) \<and> snd (tasks st ! h) = Pending
      then st\<lparr>tasks := (tasks st)[h := (fst (tasks st ! h), Finished)]\<rparr> else st)"

definition running :: "coroutine \<Rightarrow> coordinator \<Rightarrow> nat" where
  "running co st = length (filter (\<lambda>t. t = (co, Pending)) (tasks st))"

section \<open>One tick: \<^verbatim>\<open>_async_update_data\<close>\<close>

subsection \<open>Public data\<close>

text \<open>
  The public fetch. A failed fetch is logged and swallowed; only a fetch that returned
  stores the new timestamp and, when the hour differs from the recorded one, the hour.
\<close>

definition opendata_step :: "world \<Rightarrow> coordinator \<Rightarrow> coordinator" where
  "opendata_step w st =
     (let current_hour = hour (now_local w);
          should_update_peaks = (last_peak_update_hour st \<noteq> Some current_hour)
      in if should_update_opendata (now_season w) (now_opendata w) (now_opendata_window w)
              (last_opendata_update st)
         then (case fetch_peak_data w of
                 None \<Rightarrow>
                   (let st1 = st\<lparr>last_opendata_update := Some (now_opendata_fetched w)\<rparr>
                    in if should_update_peaks
                       then emit INFO ''[OpenData] Hourly peak data refresh''
                              (st1\<lparr>last_peak_update_hour := Some current_hour\<rparr>)
                       else st1)
               | Some err \<Rightarrow> emit WARNING ''[OpenData] Failed to fetch public peak data'' st)
         else st)"

subsection \<open>Calendar sync\<close>

definition truthy :: "string option \<Rightarrow> bool" where
  "truthy s = (case s of None \<Rightarrow> False | Some v \<Rightarrow> v \<noteq> [])"

definition none_or_done :: "nat option \<Rightarrow> coordinator \<Rightarrow> bool" where
  "none_or_done t st = (case t of None \<Rightarrow> True | Some h \<Rightarrow> task_done st h)"

definition calendar_step :: "world \<Rightarrow> coordinator \<Rightarrow> coordinator" where
  "calendar_step w st =
     (if truthy (calendar_entity_id st) then
        (case peak_handler_events w of
           None \<Rightarrow> st
         | Some current_peak_count \<Rightarrow>
             if current_peak_count \<noteq> last_peak_events_count st then
               if none_or_done (calendar_sync_task st) st then
                 (case create_task async_sync_calendar_events st of
                    (h, st1) \<Rightarrow> st1\<lparr>calendar_sync_task := Some h,
                                     last_peak_events_count := current_peak_count\<rparr>)
               else st
             else st)
      else st)"

subsection \<open>Portal\<close>

text \<open>The warning of an offline portal, at most once per hour.\<close>

definition offline_log_due :: "datetime \<Rightarrow> datetime option \<Rightarrow> bool" where
  "offline_log_due now last_log =
     (case last_log of None \<Rightarrow> True | Some prev \<Rightarrow> total_seconds_ge now prev 3600)"

definition offline_log :: "world \<Rightarrow> coordinator \<Rightarrow> coordinator" where
  "offline_log w st =
     (let now = now_offline w
      in if offline_log_due now (portal_last_offline_log st)
         then (emit WARNING ''[Portal] Hydro-Quebec portal is offline, skipping update'' st)
                \<lparr>portal_last_offline_log := Some now\<rparr>
         else st)"

text \<open>The calls that depend on the configured rate; they change nothing in the coordinator.\<close>

definition rate_specific :: "world \<Rightarrow> coordinator \<Rightarrow> contract \<Rightarrow> exn option" where
  "rate_specific w st c =
     (if rate st = ''D'' \<and> rate_option st = ''CPC'' then
        (if isinstance_ContractDCPC c then
           (case set_preheat_duration w of
              Some e \<Rightarrow> Some e
            | None \<Rightarrow> peak_handler_refresh_data w)
         else None)
      else if rate st = ''DPC'' then
        (if isinstance_ContractDPC c then
           (case set_preheat_duration w of
              Some e \<Rightarrow> Some e
            | None \<Rightarrow>
                (case get_dpc_data w of
                   Some e \<Rightarrow> Some e
                 | None \<Rightarrow> peak_handler_refresh_data w))
         else None)
      else if rate st = ''DT'' then
        (if isinstance_ContractDT c then get_annual_consumption w else None)
      else None)"

text \<open>
  The contract hierarchy, periods, outages and rate-specific data. The three attributes are
  assigned as soon as each object is obtained, so the state returned with an exception is
  the one reached when it was raised.
\<close>

definition fetch_hierarchy :: "world \<Rightarrow> coordinator \<Rightarrow> exn option \<times> coordinator" where
  "fetch_hierarchy w st =
     (case get_info w of
        Some e \<Rightarrow> (Some e, st)
      | None \<Rightarrow>
     (case fetch_customers_info w of
        Some e \<Rightarrow> (Some e, st)
      | None \<Rightarrow>
     (case get_customer w of
        Inl e \<Rightarrow> (Some e, st)
      | Inr cu \<Rightarrow>
     (let st1 = st\<lparr>customer := Some cu\<rparr> in
     (case customer_get_info w of
        Some e \<Rightarrow> (Some e, st1)
      | None \<Rightarrow>
     (case get_account w of
        Inl e \<Rightarrow> (Some e, st1)
      | Inr ac \<Rightarrow>
     (let st2 = st1\<lparr>account := Some ac\<rparr> in
     (case get_contract w of
        Inl e \<Rightarrow> (Some e, st2)
      | Inr c \<Rightarrow>
     (let st3 = st2\<lparr>contract := Some c\<rparr> in
     (case get_periods_info w of
        Some e \<Rightarrow> (Some e, st3)
      | None \<Rightarrow>
     (case refresh_outages w of
        Some e \<Rightarrow> (Some e, st3)
      | None \<Rightarrow> (rate_specific w st3 c, st3))))))))))))"

text \<open>
  The body of the \<^verbatim>\<open>try\<close> statement, given the dictionary built so far. It ends by an
  exception, by the early \<^verbatim>\<open>return data\<close> of the offline portal, or by running through.
\<close>

datatype portal_outcome = Raised exn | Offline | Completed

definition portal_try :: "world \<Rightarrow> snapshot \<Rightarrow> coordinator \<Rightarrow> portal_outcome \<times> snapshot \<times> coordinator" where
  "portal_try w d st =
     (if webuser st then
        (case check_hq_portal_status w of
           Inl e \<Rightarrow> (Raised e, d, st)
         | Inr avail \<Rightarrow>
             let st1 = st\<lparr>portal_available := Some avail\<rparr> in
             if \<not> avail then (Offline, d, offline_log w st1)
             else
               (case (if session_expired w then login w else None) of
                  Some e \<Rightarrow> (Raised e, d, st1)
                | None \<Rightarrow>
                    (case fetch_hierarchy w st1 of
                       (Some e, st2) \<Rightarrow> (Raised e, d, st2)
                     | (None, st2) \<Rightarrow>
                         (Completed,
                          d\<lparr>snap_contract := contract st2, snap_account := account st2,
                            snap_customer := customer st2\<rparr>,
                          st2\<lparr>last_portal_update := Some (now_portal_fetched w)\<rparr>))))
      else (Completed, d, st))"

text \<open>The two \<^verbatim>\<open>except\<close> clauses: log at error level and raise \<^verbatim>\<open>UpdateFailed\<close>.\<close>

definition update_failed_of :: "exn \<Rightarrow> update_failed" where
  "update_failed_of e =
     (case e of
        HydroQcHTTPError m \<Rightarrow> UpdateFailed (''Error fetching Hydro-Quebec data: '' @ m)
      | OtherException m \<Rightarrow> UpdateFailed (''Unexpected error: '' @ m))"

definition log_exn :: "exn \<Rightarrow> coordinator \<Rightarrow> coordinator" where
  "log_exn e st =
     (case e of
        HydroQcHTTPError m \<Rightarrow> emit ERROR (''HTTP error fetching Hydro-Quebec data: '' @ m) st
      | OtherException m \<Rightarrow> emit ERROR (''Unexpected error fetching data: '' @ m) st)"

subsection \<open>Consumption sync and the end of the tick\<close>

definition enable_consumption_sync :: "coordinator \<Rightarrow> bool" where
  "enable_consumption_sync st =
     (case options_enable_consumption_sync st of
        Some b \<Rightarrow> b
      | None \<Rightarrow> (case data_enable_consumption_sync st of Some b \<Rightarrow> b | None \<Rightarrow> True))"

text \<open>
  \<^verbatim>\<open>hasattr(self, "_first_refresh_done")\<close> is true of every coordinator, since
  \<^verbatim>\<open>__init__\<close> sets the attribute.
\<close>

definition consumption_step :: "world \<Rightarrow> coordinator \<Rightarrow> coordinator" where
  "consumption_step w st =
     (if is_portal_mode st \<and> contract st \<noteq> None \<and> enable_consumption_sync st then
        (let now = now_consumption w;
             should_sync = (case last_consumption_sync st of
                              None \<Rightarrow> True
                            | Some prev \<Rightarrow> total_seconds_ge now prev 3600)
         in if should_sync then
              (case create_task async_regular_consumption_sync st of
                 (h, st1) \<Rightarrow> st1\<lparr>regular_sync_task := Some h, last_consumption_sync := Some now\<rparr>)
            else st)
      else st)"

definition finish :: "world \<Rightarrow> coordinator \<Rightarrow> coordinator" where
  "finish w st = consumption_step w (st\<lparr>last_update_success_time := Some (now_utc w)\<rparr>)"

definition empty_data :: snapshot where
  "empty_data = \<lparr>snap_contract = None, snap_account = None, snap_customer = None\<rparr>"

subsection \<open>The whole method\<close>

definition portal_due :: "world \<Rightarrow> coordinator \<Rightarrow> bool" where
  "portal_due w st = should_update_portal (now_portal w) (now_portal_window w) (last_portal_update st)"

definition async_update_data :: "world \<Rightarrow> coordinator \<Rightarrow> (update_failed + snapshot) \<times> coordinator" where
  "async_update_data w st =
     (let d = empty_data;
          st1 = calendar_step w (opendata_step w st)
      in if is_opendata_mode st1 then (Inr d, st1)
         else if portal_due w st1 then
           (case portal_try w d st1 of
              (Raised e, d2, st2) \<Rightarrow> (Inl (update_failed_of e), log_exn e st2)
            | (Offline, d2, st2) \<Rightarrow> (Inr d2, st2)
            | (Completed, d2, st2) \<Rightarrow> (Inr d2, finish w st2))
         else (Inr d, finish w st1))"

text \<open>
  The base class \<^verbatim>\<open>DataUpdateCoordinator\<close> belongs to Home Assistant, not to this
  repository. Its refresh stores the dictionary the method returned in \<^verbatim>\<open>self.data\<close>, and
  leaves \<^verbatim>\<open>self.data\<close> as it was when the method raised \<^verbatim>\<open>UpdateFailed\<close>.
\<close>

definition async_refresh :: "world \<Rightarrow> coordinator \<Rightarrow> coordinator" where
  "async_refresh w st =
     (case async_update_data w st of
        (Inl failure, st') \<Rightarrow> st'
      | (Inr d, st') \<Rightarrow> st'\<lparr>data := Some d\<rparr>)"

section \<open>A concrete household\<close>

text \<open>
  Concrete inputs for the examples below: a clock reading with whole seconds, a contract of
  class \<^verbatim>\<open>ContractDCPC\<close>, the world in which every reading of the clock gives the same
  time, every call succeeds and the peak handler holds two events, and a freshly
  initialised coordinator in portal mode with rate D and option CPC.
\<close>

definition at :: "int \<Rightarrow> int \<Rightarrow> int \<Rightarrow> int \<Rightarrow> int \<Rightarrow> int \<Rightarrow> datetime" where
  "at y mo d h mi s =
     \<lparr>year = y, month = mo, day = d, hour = h, minute = mi, second = s, microsecond = 0\<rparr>"

definition dcpc_contract :: contract where
  "dcpc_contract = \<lparr>contract_ident = 3, isinstance_ContractDCPC = True,
      isinstance_ContractDPC = False, isinstance_ContractDT = False\<rparr>"

definition calm :: "datetime \<Rightarrow> world" where
  "calm t =
     \<lparr> now_local = t, now_season = t, now_opendata = t, now_opendata_window = t,
       fetch_peak_data = None, now_opendata_fetched = t,
       peak_handler_events = Some 2,
       now_portal = t, now_portal_window = t,
       check_hq_portal_status = Inr True, now_offline = t,
       session_expired = False, login = None, get_info = None, fetch_customers_info = None,
       get_customer = Inr 1, customer_get_info = None, get_account = Inr 2,
       get_contract = Inr dcpc_contract,
       get_periods_info = None, refresh_outages = None, set_preheat_duration = None,
       get_dpc_data = None, peak_handler_refresh_data = None, get_annual_consumption = None,
       now_portal_fetched = t, now_utc = t, now_consumption = t \<rparr>"

definition portal_home :: coordinator where
  "portal_home = init AUTH_MODE_PORTAL ''D'' ''CPC'' (Some ''calendar.hydro'') None None"

text \<open>
  The coordinator after a first tick at 10:58 on 15 January 2025 in which everything
  succeeded, and three worlds for the tick that follows: four minutes later, at 14:00 with
  the portal offline, and at 14:00 with the outage refresh answering HTTP 503.
\<close>

definition after_first_tick :: coordinator where
  "after_first_tick = async_refresh (calm (at 2025 1 15 10 58 0)) portal_home"

definition four_minutes_later :: world where
  "four_minutes_later = calm (at 2025 1 15 11 2 0)"

definition portal_offline :: world where
  "portal_offline = (calm (at 2025 1 15 14 0 0))\<lparr>check_hq_portal_status := Inr False\<rparr>"

definition outage_503 :: world where
  "outage_503 = (calm (at 2025 1 15 14 0 0))\<lparr>refresh_outages := Some (HydroQcHTTPError ''503'')\<rparr>"

definition full_snapshot :: snapshot where
  "full_snapshot =
     \<lparr>snap_contract = Some dcpc_contract, snap_account = Some 2, snap_customer = Some 1\<rparr>"

definition opendata_home :: coordinator where
  "opendata_home = init AUTH_MODE_OPENDATA ''D'' ''CPC'' None None None"

text \<open>
  The tick at noon of the same day, and the portal found offline again thirty minutes and
  one hour and one second after 14:00.
\<close>

definition at_noon :: world where
  "at_noon = calm (at 2025 1 15 12 0 0)"

definition still_offline_1430 :: world where
  "still_offline_1430 =
     (calm (at 2025 1 15 14 30 0))\<lparr>check_hq_portal_status := Inr False\<rparr>"

definition still_offline_1500 :: world where
  "still_offline_1500 =
     (calm (at 2025 1 15 15 0 1))\<lparr>check_hq_portal_status := Inr False\<rparr>"

definition offline_warning :: log_record where
  "offline_warning = (WARNING, ''[Portal] Hydro-Quebec portal is offline, skipping update'')"



text \<open>
  A third peak event appears: the ticks at 11:02 and, five minutes later, at 11:07.
\<close>

definition third_event_1102 :: world where
  "third_event_1102 = (calm (at 2025 1 15 11 2 0))\<lparr>peak_handler_events := Some 3\<rparr>"

definition third_event_1107 :: world where
  "third_event_1107 = (calm (at 2025 1 15 11 7 0))\<lparr>peak_handler_events := Some 3\<rparr>"

text \<open>
  The tick at 14:00 in which the refresh of the winter-credit peak handler, the last call of
  the chain for rate D with option CPC, fails with an error that is no HTTP error.
\<close>

definition refresh_data_fails :: world where
  "refresh_data_fails = (calm (at 2025 1 15 14 0 0))
     \<lparr>peak_handler_refresh_data := Some (OtherException ''boom'')\<rparr>"



section \<open>The timing policy\<close>

lemmas calendar_defs = elapsed_us_def to_microseconds_def ymd2ord_def days_before_year_def
  days_before_month_def is_leap_def total_seconds_ge_def

text \<open>
  C5, as the code has it. With no timestamp of a last update, \<^verbatim>\<open>_should_update_portal\<close>
  answers true at every time, and \<^verbatim>\<open>_should_update_opendata\<close> answers true exactly when
  the month it reads is December, January, February or March: the seasonal test comes
  before the first-run test.
\<close>

theorem first_run_rule:
  "should_update_portal now t_window None
   \<and> should_update_opendata t_season now' t_window' None = is_winter_season t_season"
  by (simp add: should_update_portal_def should_update_opendata_def)

theorem first_run_rule_witness:
  "should_update_portal (at 2025 7 1 12 0 0) (at 2025 7 1 12 0 0) None
   \<and> should_update_opendata (at 2025 1 15 10 58 0) (at 2025 1 15 10 58 0) (at 2025 1 15 10 58 0) None
   \<and> is_winter_season (at 2025 1 15 10 58 0)"
  using first_run_rule [of "at 2025 7 1 12 0 0" "at 2025 7 1 12 0 0" "at 2025 1 15 10 58 0"
      "at 2025 1 15 10 58 0" "at 2025 1 15 10 58 0"]
  by (simp add: is_winter_season_def at_def)

text \<open>
  C5 as the specification words it fails in July: the public feed is not refreshed although
  no last update is recorded.
\<close>

theorem first_run_counterexample:
  "\<not> should_update_opendata (at 2025 7 1 12 0 0) (at 2025 7 1 12 0 0) (at 2025 7 1 12 0 0) None"
  by (simp add: should_update_opendata_def is_winter_season_def at_def)

text \<open>
  C6. In the winter season and with a recorded last update, a reading less than five minutes
  into an hour other than the hour of the last update makes \<^verbatim>\<open>_should_update_opendata\<close>
  answer true, whatever time has elapsed and whatever the active window says.
\<close>

theorem hour_boundary_forces_update:
  assumes "is_winter_season t_season"
    and "minute now < 5"
    and "hour prev \<noteq> hour now"
  shows "should_update_opendata t_season now t_window (Some prev)"
  using assms by (simp add: should_update_opendata_def)

text \<open>
  Last update at 10:58, now 11:02 on a January day: 240 seconds have elapsed, fewer than the
  300 of the active window, and the update is due all the same.
\<close>

theorem hour_boundary_forces_update_witness:
  "is_winter_season (at 2025 1 15 11 2 0)
   \<and> minute (at 2025 1 15 11 2 0) < 5
   \<and> hour (at 2025 1 15 10 58 0) \<noteq> hour (at 2025 1 15 11 2 0)
   \<and> is_opendata_active_window (at 2025 1 15 11 2 0)
   \<and> \<not> total_seconds_ge (at 2025 1 15 11 2 0) (at 2025 1 15 10 58 0) 300
   \<and> should_update_opendata (at 2025 1 15 11 2 0) (at 2025 1 15 11 2 0) (at 2025 1 15 11 2 0)
        (Some (at 2025 1 15 10 58 0))"
proof -
  have a: "is_winter_season (at 2025 1 15 11 2 0)"
    by (simp add: is_winter_season_def at_def)
  have b: "minute (at 2025 1 15 11 2 0) < 5"
    by (simp add: at_def)
  have c: "hour (at 2025 1 15 10 58 0) \<noteq> hour (at 2025 1 15 11 2 0)"
    by (simp add: at_def)
  have d: "is_opendata_active_window (at 2025 1 15 11 2 0)"
    by (simp add: is_opendata_active_window_def at_def)
  have e: "\<not> total_seconds_ge (at 2025 1 15 11 2 0) (at 2025 1 15 10 58 0) 300"
    by (simp add: calendar_defs at_def)
  from hour_boundary_forces_update [OF a b c] a b c d e show ?thesis by blast
qed

text \<open>
  C7. When the month read for the seasonal test is none of 12, 1, 2, 3,
  \<^verbatim>\<open>_should_update_opendata\<close> answers false, whether or not a last update is recorded and
  whatever time has elapsed.
\<close>

theorem off_season_never_updates:
  assumes "month t_season \<notin> {12, 1, 2, 3}"
  shows "\<not> should_update_opendata t_season now t_window last_update"
  using assms by (simp add: should_update_opendata_def is_winter_season_def)

theorem off_season_never_updates_witness:
  "month (at 2025 7 1 12 0 0) \<notin> {12, 1, 2, 3}
   \<and> \<not> should_update_opendata (at 2025 7 1 12 0 0) (at 2025 7 1 12 0 0) (at 2025 7 1 12 0 0) None
   \<and> total_seconds_ge (at 2025 7 1 12 0 0) (at 2025 3 31 23 0 0) 3600
   \<and> \<not> should_update_opendata (at 2025 7 1 12 0 0) (at 2025 7 1 12 0 0) (at 2025 7 1 12 0 0)
         (Some (at 2025 3 31 23 0 0))"
proof -
  have a: "month (at 2025 7 1 12 0 0) \<notin> {12, 1, 2, 3}"
    by (simp add: at_def)
  have b: "total_seconds_ge (at 2025 7 1 12 0 0) (at 2025 3 31 23 0 0) 3600"
    by (simp add: calendar_defs at_def)
  from off_season_never_updates [OF a] a b show ?thesis by blast
qed

section \<open>What each step leaves alone\<close>

text \<open>
  Every step of the tick writes a few attributes only. The lemmas of this section list, step
  by step, the attributes that come out as they went in.
\<close>

lemma opendata_step_frame:
  "auth_mode (opendata_step w st) = auth_mode st"
  "webuser (opendata_step w st) = webuser st"
  "rate (opendata_step w st) = rate st"
  "rate_option (opendata_step w st) = rate_option st"
  "customer (opendata_step w st) = customer st"
  "account (opendata_step w st) = account st"
  "contract (opendata_step w st) = contract st"
  "last_update_success_time (opendata_step w st) = last_update_success_time st"
  "last_portal_update (opendata_step w st) = last_portal_update st"
  "last_consumption_sync (opendata_step w st) = last_consumption_sync st"
  "last_peak_events_count (opendata_step w st) = last_peak_events_count st"
  "portal_last_offline_log (opendata_step w st) = portal_last_offline_log st"
  "calendar_entity_id (opendata_step w st) = calendar_entity_id st"
  "calendar_sync_task (opendata_step w st) = calendar_sync_task st"
  "regular_sync_task (opendata_step w st) = regular_sync_task st"
  "options_enable_consumption_sync (opendata_step w st) = options_enable_consumption_sync st"
  "data_enable_consumption_sync (opendata_step w st) = data_enable_consumption_sync st"
  "tasks (opendata_step w st) = tasks st"
  "data (opendata_step w st) = data st"
  by (simp_all add: opendata_step_def emit_def Let_def split: option.split)

lemma calendar_step_frame:
  "auth_mode (calendar_step w st) = auth_mode st"
  "webuser (calendar_step w st) = webuser st"
  "rate (calendar_step w st) = rate st"
  "rate_option (calendar_step w st) = rate_option st"
  "customer (calendar_step w st) = customer st"
  "account (calendar_step w st) = account st"
  "contract (calendar_step w st) = contract st"
  "last_update_success_time (calendar_step w st) = last_update_success_time st"
  "last_opendata_update (calendar_step w st) = last_opendata_update st"
  "last_portal_update (calendar_step w st) = last_portal_update st"
  "last_consumption_sync (calendar_step w st) = last_consumption_sync st"
  "portal_last_offline_log (calendar_step w st) = portal_last_offline_log st"
  "calendar_entity_id (calendar_step w st) = calendar_entity_id st"
  "regular_sync_task (calendar_step w st) = regular_sync_task st"
  "options_enable_consumption_sync (calendar_step w st) = options_enable_consumption_sync st"
  "data_enable_consumption_sync (calendar_step w st) = data_enable_consumption_sync st"
  "logger (calendar_step w st) = logger st"
  "data (calendar_step w st) = data st"
  by (simp_all add: calendar_step_def create_task_def split: option.split)

lemma offline_log_frame:
  "auth_mode (offline_log w st) = auth_mode st"
  "webuser (offline_log w st) = webuser st"
  "customer (offline_log w st) = customer st"
  "account (offline_log w st) = account st"
  "contract (offline_log w st) = contract st"
  "last_update_success_time (offline_log w st) = last_update_success_time st"
  "last_opendata_update (offline_log w st) = last_opendata_update st"
  "last_portal_update (offline_log w st) = last_portal_update st"
  "last_consumption_sync (offline_log w st) = last_consumption_sync st"
  "last_peak_events_count (offline_log w st) = last_peak_events_count st"
  "calendar_entity_id (offline_log w st) = calendar_entity_id st"
  "calendar_sync_task (offline_log w st) = calendar_sync_task st"
  "regular_sync_task (offline_log w st) = regular_sync_task st"
  "tasks (offline_log w st) = tasks st"
  "data (offline_log w st) = data st"
  by (simp_all add: offline_log_def emit_def Let_def)

lemma fetch_hierarchy_frame:
  assumes "fetch_hierarchy w st = (r, st')"
  shows "auth_mode st' = auth_mode st"
    and "webuser st' = webuser st"
    and "last_update_success_time st' = last_update_success_time st"
    and "last_opendata_update st' = last_opendata_update st"
    and "last_portal_update st' = last_portal_update st"
    and "last_consumption_sync st' = last_consumption_sync st"
    and "last_peak_events_count st' = last_peak_events_count st"
    and "calendar_entity_id st' = calendar_entity_id st"
    and "calendar_sync_task st' = calendar_sync_task st"
    and "regular_sync_task st' = regular_sync_task st"
    and "tasks st' = tasks st"
    and "logger st' = logger st"
    and "data st' = data st"
  using assms
  by (auto simp: fetch_hierarchy_def Let_def split: option.splits sum.splits)

lemma portal_try_frame:
  assumes "portal_try w d st = (out, d', st')"
  shows "auth_mode st' = auth_mode st"
    and "webuser st' = webuser st"
    and "last_update_success_time st' = last_update_success_time st"
    and "last_opendata_update st' = last_opendata_update st"
    and "last_consumption_sync st' = last_consumption_sync st"
    and "last_peak_events_count st' = last_peak_events_count st"
    and "calendar_entity_id st' = calendar_entity_id st"
    and "calendar_sync_task st' = calendar_sync_task st"
    and "regular_sync_task st' = regular_sync_task st"
    and "tasks st' = tasks st"
    and "data st' = data st"
  using assms
  by (auto simp: portal_try_def Let_def offline_log_frame
      split: if_splits option.splits sum.splits prod.splits dest: fetch_hierarchy_frame)


lemma consumption_step_frame:
  "auth_mode (consumption_step w st) = auth_mode st"
  "webuser (consumption_step w st) = webuser st"
  "customer (consumption_step w st) = customer st"
  "account (consumption_step w st) = account st"
  "contract (consumption_step w st) = contract st"
  "last_update_success_time (consumption_step w st) = last_update_success_time st"
  "last_opendata_update (consumption_step w st) = last_opendata_update st"
  "last_portal_update (consumption_step w st) = last_portal_update st"
  "last_peak_events_count (consumption_step w st) = last_peak_events_count st"
  "calendar_entity_id (consumption_step w st) = calendar_entity_id st"
  "calendar_sync_task (consumption_step w st) = calendar_sync_task st"
  "logger (consumption_step w st) = logger st"
  "data (consumption_step w st) = data st"
  by (simp_all add: consumption_step_def create_task_def Let_def split: option.split)

lemma finish_frame:
  "auth_mode (finish w st) = auth_mode st"
  "webuser (finish w st) = webuser st"
  "customer (finish w st) = customer st"
  "account (finish w st) = account st"
  "contract (finish w st) = contract st"
  "last_update_success_time (finish w st) = Some (now_utc w)"
  "last_opendata_update (finish w st) = last_opendata_update st"
  "last_portal_update (finish w st) = last_portal_update st"
  "last_peak_events_count (finish w st) = last_peak_events_count st"
  "calendar_entity_id (finish w st) = calendar_entity_id st"
  "calendar_sync_task (finish w st) = calendar_sync_task st"
  "logger (finish w st) = logger st"
  "data (finish w st) = data st"
  by (simp_all add: finish_def consumption_step_frame)

lemma log_exn_frame:
  "auth_mode (log_exn e st) = auth_mode st"
  "webuser (log_exn e st) = webuser st"
  "customer (log_exn e st) = customer st"
  "account (log_exn e st) = account st"
  "contract (log_exn e st) = contract st"
  "last_update_success_time (log_exn e st) = last_update_success_time st"
  "last_opendata_update (log_exn e st) = last_opendata_update st"
  "last_portal_update (log_exn e st) = last_portal_update st"
  "last_peak_events_count (log_exn e st) = last_peak_events_count st"
  "calendar_entity_id (log_exn e st) = calendar_entity_id st"
  "calendar_sync_task (log_exn e st) = calendar_sync_task st"
  "tasks (log_exn e st) = tasks st"
  "data (log_exn e st) = data st"
  by (simp_all add: log_exn_def emit_def split: exn.split)

text \<open>The state in which the portal step starts.\<close>

lemma prelude_frame:
  "is_opendata_mode (calendar_step w (opendata_step w st)) = is_opendata_mode st"
  "portal_due w (calendar_step w (opendata_step w st)) = portal_due w st"
  "webuser (calendar_step w (opendata_step w st)) = webuser st"
  "rate (calendar_step w (opendata_step w st)) = rate st"
  "rate_option (calendar_step w (opendata_step w st)) = rate_option st"
  "customer (calendar_step w (opendata_step w st)) = customer st"
  "account (calendar_step w (opendata_step w st)) = account st"
  "contract (calendar_step w (opendata_step w st)) = contract st"
  "last_update_success_time (calendar_step w (opendata_step w st)) = last_update_success_time st"
  "last_portal_update (calendar_step w (opendata_step w st)) = last_portal_update st"
  "data (calendar_step w (opendata_step w st)) = data st"
  by (simp_all add: is_opendata_mode_def portal_due_def calendar_step_frame opendata_step_frame)

section \<open>The three ways the portal step ends\<close>

lemma portal_try_offline:
  assumes "webuser st" and "check_hq_portal_status w = Inr False"
  shows "portal_try w d st = (Offline, d, offline_log w (st\<lparr>portal_available := Some False\<rparr>))"
  using assms by (simp add: portal_try_def)

lemma portal_try_Offline_iff:
  "fst (portal_try w d st) = Offline \<longleftrightarrow> webuser st \<and> check_hq_portal_status w = Inr False"
  by (auto simp: portal_try_def Let_def split: sum.splits option.splits prod.splits)

lemma portal_try_Raised:
  assumes "portal_try w d st = (Raised e, d', st')"
  shows "d' = d" and "last_portal_update st' = last_portal_update st"
  using assms
  by (auto simp: portal_try_def Let_def offline_log_frame
      split: if_splits option.splits sum.splits prod.splits dest: fetch_hierarchy_frame)


text \<open>
  Whether the portal step raises, and what, depends on the world and on the configuration
  only, which the public fetch and the calendar step do not touch.
\<close>

lemma rate_specific_cong:
  "rate a = rate b \<Longrightarrow> rate_option a = rate_option b \<Longrightarrow> rate_specific w a c = rate_specific w b c"
  by (simp add: rate_specific_def)

lemma fetch_hierarchy_cong:
  assumes "rate a = rate b" and "rate_option a = rate_option b"
  shows "fst (fetch_hierarchy w a) = fst (fetch_hierarchy w b)"
  using assms
  by (auto simp: fetch_hierarchy_def Let_def split: option.splits sum.splits
      intro!: rate_specific_cong)

lemma portal_try_cong:
  assumes "webuser a = webuser b" and "rate a = rate b" and "rate_option a = rate_option b"
  shows "fst (portal_try w d a) = fst (portal_try w d' b)"
proof -
  have "fst (fetch_hierarchy w (a\<lparr>portal_available := Some True\<rparr>))
      = fst (fetch_hierarchy w (b\<lparr>portal_available := Some True\<rparr>))"
    using assms by (intro fetch_hierarchy_cong) simp_all
  then show ?thesis
    using assms(1)
    by (auto simp: portal_try_def Let_def split: sum.splits option.splits prod.splits)
qed


section \<open>Snapshot and attributes on a tick without a portal fetch\<close>

text \<open>
  C1, as the code has it. The method builds its dictionary anew on every tick, with
  \<^verbatim>\<open>None\<close> under the three authenticated keys, and fills them only at the end of a
  successful fetch. On a tick outside public-data-only mode where the portal update is not
  due, or is due and the portal answers that it is offline, the method returns that
  dictionary with the three keys still \<^verbatim>\<open>None\<close>, and that is what observers of
  \<^verbatim>\<open>self.data\<close> read afterwards. What keeps its previous value is the coordinator's own
  \<^verbatim>\<open>_contract\<close>, \<^verbatim>\<open>_account\<close> and \<^verbatim>\<open>_customer\<close>.
\<close>

theorem skipped_tick_keeps_attributes:
  assumes "\<not> is_opendata_mode st"
    and "\<not> portal_due w st \<or> (webuser st \<and> check_hq_portal_status w = Inr False)"
  shows "fst (async_update_data w st) = Inr empty_data
       \<and> data (async_refresh w st) = Some empty_data
       \<and> contract (snd (async_update_data w st)) = contract st
       \<and> account (snd (async_update_data w st)) = account st
       \<and> customer (snd (async_update_data w st)) = customer st"
proof -
  let ?st1 = "calendar_step w (opendata_step w st)"
  have r: "async_update_data w st = (Inr empty_data, finish w ?st1)
         \<or> async_update_data w st
              = (Inr empty_data, offline_log w (?st1\<lparr>portal_available := Some False\<rparr>))"
  proof (cases "portal_due w st")
    case False
    with assms(1) show ?thesis
      by (simp add: async_update_data_def Let_def prelude_frame)
  next
    case True
    with assms(2) have "webuser ?st1" and "check_hq_portal_status w = Inr False"
      by (simp_all add: prelude_frame)
    from portal_try_offline [OF this, of empty_data] True assms(1) show ?thesis
      by (simp add: async_update_data_def Let_def prelude_frame)
  qed
  then show ?thesis
    by (auto simp: async_refresh_def finish_frame offline_log_frame prelude_frame)
qed

theorem skipped_tick_keeps_attributes_witness:
  "\<not> is_opendata_mode after_first_tick
   \<and> \<not> portal_due four_minutes_later after_first_tick
   \<and> contract after_first_tick = Some dcpc_contract
   \<and> fst (async_update_data four_minutes_later after_first_tick) = Inr empty_data
   \<and> data (async_refresh four_minutes_later after_first_tick) = Some empty_data
   \<and> contract (snd (async_update_data four_minutes_later after_first_tick)) = contract after_first_tick
   \<and> account (snd (async_update_data four_minutes_later after_first_tick)) = account after_first_tick
   \<and> customer (snd (async_update_data four_minutes_later after_first_tick)) = customer after_first_tick"
proof -
  have a: "\<not> is_opendata_mode after_first_tick" by code_simp
  have b: "\<not> portal_due four_minutes_later after_first_tick" by code_simp
  have c: "contract after_first_tick = Some dcpc_contract" by code_simp
  from b have b': "\<not> portal_due four_minutes_later after_first_tick
      \<or> (webuser after_first_tick \<and> check_hq_portal_status four_minutes_later = Inr False)"
    by blast
  from skipped_tick_keeps_attributes [OF a b'] a b c show ?thesis by blast
qed

text \<open>
  C1 as the specification words it fails on the second tick of a household: the first tick
  published contract, account and customer; four minutes later the portal update is not
  due and the published snapshot holds \<^verbatim>\<open>None\<close> three times. The same happens at 14:00
  when the update is due and the portal is offline.
\<close>

theorem stale_snapshot_counterexample:
  "is_portal_mode after_first_tick
   \<and> data after_first_tick = Some full_snapshot
   \<and> \<not> portal_due four_minutes_later after_first_tick
   \<and> data (async_refresh four_minutes_later after_first_tick) = Some empty_data
   \<and> portal_due portal_offline after_first_tick
   \<and> check_hq_portal_status portal_offline = Inr False
   \<and> data (async_refresh portal_offline after_first_tick) = Some empty_data
   \<and> full_snapshot \<noteq> empty_data"
  by code_simp

section \<open>Which calls make the portal step raise\<close>

text \<open>
  The exception of any call of the chain ends the portal step: the status check, the login
  of an expired session, and each call of the hierarchy in turn, the earlier ones having
  returned.
\<close>

lemma portal_try_raises:
  assumes "webuser st"
  shows "check_hq_portal_status w = Inl e \<Longrightarrow> fst (portal_try w d st) = Raised e"
    and "check_hq_portal_status w = Inr True \<Longrightarrow> session_expired w \<Longrightarrow> login w = Some e
           \<Longrightarrow> fst (portal_try w d st) = Raised e"
    and "check_hq_portal_status w = Inr True \<Longrightarrow> (session_expired w \<longrightarrow> login w = None)
           \<Longrightarrow> fst (fetch_hierarchy w st) = Some e \<Longrightarrow> fst (portal_try w d st) = Raised e"
proof -
  have c: "fst (fetch_hierarchy w (st\<lparr>portal_available := Some True\<rparr>)) = fst (fetch_hierarchy w st)"
    by (rule fetch_hierarchy_cong) simp_all
  show "check_hq_portal_status w = Inl e \<Longrightarrow> fst (portal_try w d st) = Raised e"
    using assms by (simp add: portal_try_def)
  show "check_hq_portal_status w = Inr True \<Longrightarrow> session_expired w \<Longrightarrow> login w = Some e
           \<Longrightarrow> fst (portal_try w d st) = Raised e"
    using assms by (simp add: portal_try_def)
  show "check_hq_portal_status w = Inr True \<Longrightarrow> (session_expired w \<longrightarrow> login w = None)
           \<Longrightarrow> fst (fetch_hierarchy w st) = Some e \<Longrightarrow> fst (portal_try w d st) = Raised e"
    using assms c by (auto simp: portal_try_def Let_def split: prod.splits option.splits)
qed

lemma fetch_hierarchy_raises:
  "get_info w = Some e \<Longrightarrow> fst (fetch_hierarchy w st) = Some e"
  "get_info w = None \<Longrightarrow> fetch_customers_info w = Some e \<Longrightarrow> fst (fetch_hierarchy w st) = Some e"
  "get_info w = None \<Longrightarrow> fetch_customers_info w = None \<Longrightarrow> get_customer w = Inl e
     \<Longrightarrow> fst (fetch_hierarchy w st) = Some e"
  "get_info w = None \<Longrightarrow> fetch_customers_info w = None \<Longrightarrow> get_customer w = Inr cu
     \<Longrightarrow> customer_get_info w = Some e \<Longrightarrow> fst (fetch_hierarchy w st) = Some e"
  "get_info w = None \<Longrightarrow> fetch_customers_info w = None \<Longrightarrow> get_customer w = Inr cu
     \<Longrightarrow> customer_get_info w = None \<Longrightarrow> get_account w = Inl e
     \<Longrightarrow> fst (fetch_hierarchy w st) = Some e"
  "get_info w = None \<Longrightarrow> fetch_customers_info w = None \<Longrightarrow> get_customer w = Inr cu
     \<Longrightarrow> customer_get_info w = None \<Longrightarrow> get_account w = Inr ac \<Longrightarrow> get_contract w = Inl e
     \<Longrightarrow> fst (fetch_hierarchy w st) = Some e"
  "get_info w = None \<Longrightarrow> fetch_customers_info w = None \<Longrightarrow> get_customer w = Inr cu
     \<Longrightarrow> customer_get_info w = None \<Longrightarrow> get_account w = Inr ac \<Longrightarrow> get_contract w = Inr c
     \<Longrightarrow> get_periods_info w = Some e \<Longrightarrow> fst (fetch_hierarchy w st) = Some e"
  "get_info w = None \<Longrightarrow> fetch_customers_info w = None \<Longrightarrow> get_customer w = Inr cu
     \<Longrightarrow> customer_get_info w = None \<Longrightarrow> get_account w = Inr ac \<Longrightarrow> get_contract w = Inr c
     \<Longrightarrow> get_periods_info w = None \<Longrightarrow> refresh_outages w = Some e
     \<Longrightarrow> fst (fetch_hierarchy w st) = Some e"
  "get_info w = None \<Longrightarrow> fetch_customers_info w = None \<Longrightarrow> get_customer w = Inr cu
     \<Longrightarrow> customer_get_info w = None \<Longrightarrow> get_account w = Inr ac \<Longrightarrow> get_contract w = Inr c
     \<Longrightarrow> get_periods_info w = None \<Longrightarrow> refresh_outages w = None
     \<Longrightarrow> fst (fetch_hierarchy w st) = rate_specific w st c"
  by (simp_all add: fetch_hierarchy_def Let_def rate_specific_def)

text \<open>
  The coordinator's own attributes, unlike the dictionary, are assigned while the chain
  runs: when the customer's \<^verbatim>\<open>get_info\<close> raises, \<^verbatim>\<open>_customer\<close> already holds the new
  object, and account and contract still hold the earlier ones.
\<close>

lemma attributes_assigned_during_chain:
  assumes "get_info w = None" and "fetch_customers_info w = None"
    and "get_customer w = Inr cu" and "customer_get_info w = Some e"
  shows "fetch_hierarchy w st = (Some e, st\<lparr>customer := Some cu\<rparr>)"
  using assms by (simp add: fetch_hierarchy_def)

section \<open>A failed authenticated fetch\<close>

lemma rate_specific_raises:
  "rate st = ''D'' \<Longrightarrow> rate_option st = ''CPC'' \<Longrightarrow> isinstance_ContractDCPC c
     \<Longrightarrow> set_preheat_duration w = Some e \<Longrightarrow> rate_specific w st c = Some e"
  "rate st = ''D'' \<Longrightarrow> rate_option st = ''CPC'' \<Longrightarrow> isinstance_ContractDCPC c
     \<Longrightarrow> set_preheat_duration w = None \<Longrightarrow> peak_handler_refresh_data w = Some e
     \<Longrightarrow> rate_specific w st c = Some e"
  "rate st = ''DPC'' \<Longrightarrow> isinstance_ContractDPC c
     \<Longrightarrow> set_preheat_duration w = Some e \<Longrightarrow> rate_specific w st c = Some e"
  "rate st = ''DPC'' \<Longrightarrow> isinstance_ContractDPC c
     \<Longrightarrow> set_preheat_duration w = None \<Longrightarrow> get_dpc_data w = Some e
     \<Longrightarrow> rate_specific w st c = Some e"
  "rate st = ''DPC'' \<Longrightarrow> isinstance_ContractDPC c
     \<Longrightarrow> set_preheat_duration w = None \<Longrightarrow> get_dpc_data w = None
     \<Longrightarrow> peak_handler_refresh_data w = Some e \<Longrightarrow> rate_specific w st c = Some e"
  "rate st = ''DT'' \<Longrightarrow> isinstance_ContractDT c
     \<Longrightarrow> get_annual_consumption w = Some e \<Longrightarrow> rate_specific w st c = Some e"
  by (simp_all add: rate_specific_def)

lemma raised_portal_step_fails_tick:
  assumes "\<not> is_opendata_mode st"
    and "portal_due w st"
    and "fst (portal_try w empty_data st) = Raised e"
  shows "fst (async_update_data w st) = Inl (update_failed_of e)"
    and "fst (snd (portal_try w empty_data st)) = empty_data"
    and "data (async_refresh w st) = data st"
    and "last_portal_update (snd (async_update_data w st)) = last_portal_update st"
proof -
  let ?st1 = "calendar_step w (opendata_step w st)"
  have "fst (portal_try w empty_data ?st1) = fst (portal_try w empty_data st)"
    by (rule portal_try_cong) (simp_all add: prelude_frame)
  with assms(3) obtain d' st2 where p: "portal_try w empty_data ?st1 = (Raised e, d', st2)"
    by (metis prod.collapse)
  obtain d0 st0 where q: "portal_try w empty_data st = (Raised e, d0, st0)"
    using assms(3) by (metis prod.collapse)
  have r: "async_update_data w st = (Inl (update_failed_of e), log_exn e st2)"
    using assms(1,2) p by (simp add: async_update_data_def Let_def prelude_frame)
  have t: "last_portal_update st2 = last_portal_update st"
    using portal_try_Raised(2) [OF p] by (simp add: prelude_frame)
  have u: "data st2 = data st"
    using portal_try_frame(11) [OF p] by (simp add: prelude_frame)
  show "fst (async_update_data w st) = Inl (update_failed_of e)"
    using r by simp
  show "fst (snd (portal_try w empty_data st)) = empty_data"
    using portal_try_Raised(1) [OF q] q by simp
  show "data (async_refresh w st) = data st"
    using r u by (simp add: async_refresh_def log_exn_frame)
  show "last_portal_update (snd (async_update_data w st)) = last_portal_update st"
    using r t by (simp add: log_exn_frame)
qed

text \<open>
  C2. Outside public-data-only mode, with the portal update due and the web user present,
  let \<open>e\<close> be the exception of the first call of the authenticated sequence that raises, the
  calls before it having returned: the status check, the login of an expired session, the
  seven calls of the hierarchy, periods and outages, or one of the calls made for the
  configured rate on a contract of the matching class (preheat duration and peak-handler
  refresh for D with CPC; preheat duration, Flex-D data and peak-handler refresh for DPC;
  annual consumption for DT). Then the method raises \<^verbatim>\<open>UpdateFailed\<close>, worded
  "Error fetching ..." for a \<^verbatim>\<open>HydroQcHTTPError\<close> and "Unexpected error ..." for any other
  exception; the dictionary under construction has received no write; the snapshot
  observers read in \<^verbatim>\<open>self.data\<close> is the one from before the tick; and
  \<^verbatim>\<open>_last_portal_update\<close> is unchanged.
\<close>

theorem failed_chain_call_fails_tick:
  assumes "\<not> is_opendata_mode st"
    and "portal_due w st"
    and "webuser st"
    and "check_hq_portal_status w = Inl e
       \<or> check_hq_portal_status w = Inr True
         \<and> (session_expired w \<and> login w = Some e
            \<or> (session_expired w \<longrightarrow> login w = None)
              \<and> (get_info w = Some e
                 \<or> get_info w = None
                   \<and> (fetch_customers_info w = Some e
                      \<or> fetch_customers_info w = None
                        \<and> (get_customer w = Inl e
                           \<or> get_customer w = Inr cu
                             \<and> (customer_get_info w = Some e
                                \<or> customer_get_info w = None
                                  \<and> (get_account w = Inl e
                                     \<or> get_account w = Inr ac
                                       \<and> (get_contract w = Inl e
                                          \<or> get_contract w = Inr c
                                            \<and> (get_periods_info w = Some e
                                               \<or> get_periods_info w = None
                                                 \<and> (refresh_outages w = Some e
                                                    \<or> refresh_outages w = None
                                                      \<and> (rate st = ''D'' \<and> rate_option st = ''CPC''
                                                           \<and> isinstance_ContractDCPC c
                                                           \<and> (set_preheat_duration w = Some e
                                                              \<or> set_preheat_duration w = None
                                                                \<and> peak_handler_refresh_data w = Some e)
                                                         \<or> rate st = ''DPC''
                                                           \<and> isinstance_ContractDPC c
                                                           \<and> (set_preheat_duration w = Some e
                                                              \<or> set_preheat_duration w = None
                                                                \<and> (get_dpc_data w = Some e
                                                                   \<or> get_dpc_data w = None
                                                                     \<and> peak_handler_refresh_data w = Some e))
                                                         \<or> rate st = ''DT''
                                                           \<and> isinstance_ContractDT c
                                                           \<and> get_annual_consumption w = Some e))))))))))"
  shows "fst (async_update_data w st)
           = Inl (case e of
                    HydroQcHTTPError m \<Rightarrow> UpdateFailed (''Error fetching Hydro-Quebec data: '' @ m)
                  | OtherException m \<Rightarrow> UpdateFailed (''Unexpected error: '' @ m))
       \<and> fst (snd (portal_try w empty_data st)) = empty_data
       \<and> data (async_refresh w st) = data st
       \<and> last_portal_update (snd (async_update_data w st)) = last_portal_update st"
proof -
  have "fst (portal_try w empty_data st) = Raised e"
  proof (cases "check_hq_portal_status w = Inl e")
    case True
    then show ?thesis by (rule portal_try_raises(1) [OF assms(3)])
  next
    case False
    with assms(4) have up: "check_hq_portal_status w = Inr True" by blast
    show ?thesis
    proof (cases "session_expired w \<and> login w = Some e")
      case True
      then show ?thesis using portal_try_raises(2) [OF assms(3) up] by blast
    next
      case no_login: False
      with assms(4) False have ok: "session_expired w \<longrightarrow> login w = None" by blast
      have "fst (fetch_hierarchy w st) = Some e"
        using assms(4) False no_login
        by (auto simp: fetch_hierarchy_raises rate_specific_raises)
      then show ?thesis by (rule portal_try_raises(3) [OF assms(3) up ok])
    qed
  qed
  from raised_portal_step_fails_tick [OF assms(1,2) this] show ?thesis
    by (simp add: update_failed_of_def)
qed

text \<open>
  At 14:00, three hours after the first tick of the household, the refresh of the
  winter-credit peak handler raises an error that is no HTTP error: the tick fails with the
  "Unexpected error" wording. With the outage refresh answering HTTP 503 instead, it fails
  with the HTTP wording. Both times the snapshot of 10:58 stays published and the portal
  timestamp stays at 10:58.
\<close>

theorem failed_chain_call_fails_tick_witness:
  "\<not> is_opendata_mode after_first_tick
   \<and> webuser after_first_tick
   \<and> rate after_first_tick = ''D'' \<and> rate_option after_first_tick = ''CPC''
   \<and> portal_due refresh_data_fails after_first_tick
   \<and> check_hq_portal_status refresh_data_fails = Inr True
   \<and> get_contract refresh_data_fails = Inr dcpc_contract
   \<and> isinstance_ContractDCPC dcpc_contract
   \<and> refresh_outages refresh_data_fails = None
   \<and> set_preheat_duration refresh_data_fails = None
   \<and> peak_handler_refresh_data refresh_data_fails = Some (OtherException ''boom'')
   \<and> fst (async_update_data refresh_data_fails after_first_tick)
        = Inl (UpdateFailed ''Unexpected error: boom'')
   \<and> data (async_refresh refresh_data_fails after_first_tick) = Some full_snapshot
   \<and> last_portal_update (snd (async_update_data refresh_data_fails after_first_tick))
        = Some (at 2025 1 15 10 58 0)
   \<and> portal_due outage_503 after_first_tick
   \<and> get_periods_info outage_503 = None
   \<and> refresh_outages outage_503 = Some (HydroQcHTTPError ''503'')
   \<and> fst (async_update_data outage_503 after_first_tick)
        = Inl (UpdateFailed ''Error fetching Hydro-Quebec data: 503'')
   \<and> data (async_refresh outage_503 after_first_tick) = Some full_snapshot
   \<and> last_portal_update (snd (async_update_data outage_503 after_first_tick))
        = Some (at 2025 1 15 10 58 0)"
proof -
  have a: "\<not> is_opendata_mode after_first_tick" by code_simp
  have b: "webuser after_first_tick" by code_simp
  have c: "rate after_first_tick = ''D''" by code_simp
  have d: "rate_option after_first_tick = ''CPC''" by code_simp
  have e: "portal_due refresh_data_fails after_first_tick" by code_simp
  have f: "check_hq_portal_status refresh_data_fails = Inr True" by code_simp
  have g: "get_contract refresh_data_fails = Inr dcpc_contract" by code_simp
  have h: "isinstance_ContractDCPC dcpc_contract" by code_simp
  have i: "refresh_outages refresh_data_fails = None" by code_simp
  have j: "set_preheat_duration refresh_data_fails = None" by code_simp
  have k: "peak_handler_refresh_data refresh_data_fails = Some (OtherException ''boom'')"
    by code_simp
  have l: "portal_due outage_503 after_first_tick" by code_simp
  have m: "get_periods_info outage_503 = None" by code_simp
  have n: "refresh_outages outage_503 = Some (HydroQcHTTPError ''503'')" by code_simp
  have o: "data after_first_tick = Some full_snapshot" by code_simp
  have p: "last_portal_update after_first_tick = Some (at 2025 1 15 10 58 0)" by code_simp
  have boom: "fst (async_update_data refresh_data_fails after_first_tick)
           = Inl (case OtherException ''boom'' of
                    HydroQcHTTPError m \<Rightarrow> UpdateFailed (''Error fetching Hydro-Quebec data: '' @ m)
                  | OtherException m \<Rightarrow> UpdateFailed (''Unexpected error: '' @ m))
       \<and> fst (snd (portal_try refresh_data_fails empty_data after_first_tick)) = empty_data
       \<and> data (async_refresh refresh_data_fails after_first_tick) = data after_first_tick
       \<and> last_portal_update (snd (async_update_data refresh_data_fails after_first_tick))
           = last_portal_update after_first_tick"
    by (rule failed_chain_call_fails_tick [where cu = 1 and ac = 2 and c = dcpc_contract,
          OF a e b]) code_simp
  have http: "fst (async_update_data outage_503 after_first_tick)
           = Inl (case HydroQcHTTPError ''503'' of
                    HydroQcHTTPError m \<Rightarrow> UpdateFailed (''Error fetching Hydro-Quebec data: '' @ m)
                  | OtherException m \<Rightarrow> UpdateFailed (''Unexpected error: '' @ m))
       \<and> fst (snd (portal_try outage_503 empty_data after_first_tick)) = empty_data
       \<and> data (async_refresh outage_503 after_first_tick) = data after_first_tick
       \<and> last_portal_update (snd (async_update_data outage_503 after_first_tick))
           = last_portal_update after_first_tick"
    by (rule failed_chain_call_fails_tick [where cu = 1 and ac = 2 and c = dcpc_contract,
          OF a l b]) code_simp
  have r1: "fst (async_update_data refresh_data_fails after_first_tick)
        = Inl (UpdateFailed ''Unexpected error: boom'')"
    using boom [THEN conjunct1] by simp
  have r2: "data (async_refresh refresh_data_fails after_first_tick) = Some full_snapshot"
    using boom [THEN conjunct2, THEN conjunct2, THEN conjunct1] o by simp
  have r3: "last_portal_update (snd (async_update_data refresh_data_fails after_first_tick))
        = Some (at 2025 1 15 10 58 0)"
    using boom [THEN conjunct2, THEN conjunct2, THEN conjunct2] p by simp
  have r4: "fst (async_update_data outage_503 after_first_tick)
        = Inl (UpdateFailed ''Error fetching Hydro-Quebec data: 503'')"
    using http [THEN conjunct1] by simp
  have r5: "data (async_refresh outage_503 after_first_tick) = Some full_snapshot"
    using http [THEN conjunct2, THEN conjunct2, THEN conjunct1] o by simp
  have r6: "last_portal_update (snd (async_update_data outage_503 after_first_tick))
        = Some (at 2025 1 15 10 58 0)"
    using http [THEN conjunct2, THEN conjunct2, THEN conjunct2] p by simp
  show ?thesis
    by (intro conjI a b c d e f g h i j k l m n r1 r2 r3 r4 r5 r6)
qed

section \<open>The end of a tick\<close>

text \<open>
  C4, as the code has it. Whenever the method returns a dictionary, that dictionary becomes
  the published snapshot. The completion time \<^verbatim>\<open>last_update_success_time\<close> is written by
  the statement after the portal step, which the two early returns do not reach: in
  public-data-only mode, and when the portal update is due and the portal answers that it
  is offline, the time keeps its previous value; on every other returning tick it becomes
  the clock reading taken there.
\<close>

theorem completion_time:
  assumes "fst (async_update_data w st) = Inr d"
  shows "data (async_refresh w st) = Some d
       \<and> last_update_success_time (snd (async_update_data w st))
           = (if is_opendata_mode st
                 \<or> (portal_due w st \<and> webuser st \<and> check_hq_portal_status w = Inr False)
              then last_update_success_time st else Some (now_utc w))"
proof -
  let ?st1 = "calendar_step w (opendata_step w st)"
  have pub: "data (async_refresh w st) = Some d"
    using assms by (cases "async_update_data w st") (simp add: async_refresh_def)
  have "last_update_success_time (snd (async_update_data w st))
           = (if is_opendata_mode st
                 \<or> (portal_due w st \<and> webuser st \<and> check_hq_portal_status w = Inr False)
              then last_update_success_time st else Some (now_utc w))"
  proof (cases "is_opendata_mode st")
    case True
    then show ?thesis
      by (simp add: async_update_data_def Let_def prelude_frame)
  next
    case mode: False
    show ?thesis
    proof (cases "portal_due w st")
      case False
      with mode show ?thesis
        by (simp add: async_update_data_def Let_def prelude_frame finish_frame)
    next
      case due: True
      obtain out d2 st2 where p: "portal_try w empty_data ?st1 = (out, d2, st2)"
        by (metis prod.collapse)
      have off: "out = Offline \<longleftrightarrow> webuser st \<and> check_hq_portal_status w = Inr False"
        using portal_try_Offline_iff [of w empty_data ?st1] p by (simp add: prelude_frame)
      have keep: "last_update_success_time st2 = last_update_success_time st"
        using portal_try_frame(3) [OF p] by (simp add: prelude_frame)
      show ?thesis
      proof (cases out)
        case (Raised e)
        with assms mode due p show ?thesis
          by (simp add: async_update_data_def Let_def prelude_frame)
      next
        case Offline
        with mode due p off keep show ?thesis
          by (simp add: async_update_data_def Let_def prelude_frame)
      next
        case Completed
        with mode due p off show ?thesis
          by (auto simp: async_update_data_def Let_def prelude_frame finish_frame)
      qed
    qed
  qed
  with pub show ?thesis by blast
qed

theorem completion_time_witness:
  "fst (async_update_data four_minutes_later after_first_tick) = Inr empty_data
   \<and> data (async_refresh four_minutes_later after_first_tick) = Some empty_data
   \<and> last_update_success_time (snd (async_update_data four_minutes_later after_first_tick))
       = Some (at 2025 1 15 11 2 0)"
proof -
  have a: "fst (async_update_data four_minutes_later after_first_tick) = Inr empty_data"
    by code_simp
  have b: "\<not> is_opendata_mode after_first_tick" by code_simp
  have c: "\<not> portal_due four_minutes_later after_first_tick" by code_simp
  have d: "now_utc four_minutes_later = at 2025 1 15 11 2 0" by code_simp
  from completion_time [OF a] a b c d show ?thesis by simp
qed

text \<open>
  C4 as the specification words it fails where the portal is found offline at 14:00: the
  tick returns its dictionary and the completion time still reads 10:58. In
  public-data-only mode the first tick returns and records no completion time.
\<close>

theorem completion_time_counterexample:
  "fst (async_update_data portal_offline after_first_tick) = Inr empty_data
   \<and> now_utc portal_offline = at 2025 1 15 14 0 0
   \<and> last_update_success_time (snd (async_update_data portal_offline after_first_tick))
       = Some (at 2025 1 15 10 58 0)
   \<and> fst (async_update_data (calm (at 2025 1 15 10 58 0)) opendata_home) = Inr empty_data
   \<and> last_update_success_time (snd (async_update_data (calm (at 2025 1 15 10 58 0)) opendata_home))
       = None"
  by code_simp

section \<open>The offline warning\<close>

text \<open>
  C8. The block that warns of an offline portal writes the warning and records the reading
  of the clock as the time of the last warning when no such time is recorded or at least
  3600 seconds lie between it and the reading; otherwise it changes nothing. The cooldown
  is the constant 3600 of the code. Hence, starting with no recorded time, a warning at
  \<open>t0\<close> is written, one 1800 seconds later is suppressed, and one 3601 seconds after
  \<open>t0\<close> is written again.
\<close>

theorem offline_warning_cooldown:
  "(if (case portal_last_offline_log st of
          None \<Rightarrow> True
        | Some prev \<Rightarrow> 3600 * 1000000 \<le> elapsed_us (now_offline w) prev)
    then logger (offline_log w st) = logger st @ [offline_warning]
       \<and> portal_last_offline_log (offline_log w st) = Some (now_offline w)
    else offline_log w st = st)
   \<and> (portal_last_offline_log st = None
        \<and> elapsed_us t1 t0 = 1800 * 1000000 \<and> elapsed_us t2 t0 = 3601 * 1000000 \<longrightarrow>
      logger (offline_log (w\<lparr>now_offline := t0\<rparr>) st) = logger st @ [offline_warning]
      \<and> offline_log (w\<lparr>now_offline := t1\<rparr>) (offline_log (w\<lparr>now_offline := t0\<rparr>) st)
          = offline_log (w\<lparr>now_offline := t0\<rparr>) st
      \<and> logger (offline_log (w\<lparr>now_offline := t2\<rparr>)
           (offline_log (w\<lparr>now_offline := t1\<rparr>) (offline_log (w\<lparr>now_offline := t0\<rparr>) st)))
          = logger st @ [offline_warning, offline_warning]
      \<and> portal_last_offline_log (offline_log (w\<lparr>now_offline := t2\<rparr>)
           (offline_log (w\<lparr>now_offline := t1\<rparr>) (offline_log (w\<lparr>now_offline := t0\<rparr>) st)))
          = Some t2)"
  by (simp add: offline_log_def offline_log_due_def total_seconds_ge_def emit_def
      offline_warning_def Let_def split: option.split)

text \<open>
  Three ticks of the household with the portal offline, at 14:00, 14:30 and 15:00:01: the
  first and the third write the warning, the second does not.
\<close>

theorem offline_warning_cooldown_witness:
  "portal_last_offline_log after_first_tick = None
   \<and> elapsed_us (at 2025 1 15 14 30 0) (at 2025 1 15 14 0 0) = 1800 * 1000000
   \<and> elapsed_us (at 2025 1 15 15 0 1) (at 2025 1 15 14 0 0) = 3601 * 1000000
   \<and> logger (offline_log (portal_offline\<lparr>now_offline := at 2025 1 15 14 0 0\<rparr>) after_first_tick)
       = logger after_first_tick @ [offline_warning]
   \<and> logger (offline_log (portal_offline\<lparr>now_offline := at 2025 1 15 15 0 1\<rparr>)
        (offline_log (portal_offline\<lparr>now_offline := at 2025 1 15 14 30 0\<rparr>)
          (offline_log (portal_offline\<lparr>now_offline := at 2025 1 15 14 0 0\<rparr>) after_first_tick)))
       = logger after_first_tick @ [offline_warning, offline_warning]
   \<and> filter (\<lambda>r. r = offline_warning) (logger (async_refresh portal_offline after_first_tick))
       = [offline_warning]
   \<and> filter (\<lambda>r. r = offline_warning)
        (logger (async_refresh still_offline_1430 (async_refresh portal_offline after_first_tick)))
       = [offline_warning]
   \<and> filter (\<lambda>r. r = offline_warning)
        (logger (async_refresh still_offline_1500
           (async_refresh still_offline_1430 (async_refresh portal_offline after_first_tick))))
       = [offline_warning, offline_warning]"
proof -
  have a: "portal_last_offline_log after_first_tick = None" by code_simp
  have b: "elapsed_us (at 2025 1 15 14 30 0) (at 2025 1 15 14 0 0) = 1800 * 1000000"
    by code_simp
  have c: "elapsed_us (at 2025 1 15 15 0 1) (at 2025 1 15 14 0 0) = 3601 * 1000000"
    by code_simp
  have d: "filter (\<lambda>r. r = offline_warning) (logger (async_refresh portal_offline after_first_tick))
       = [offline_warning]"
    by code_simp
  have e: "filter (\<lambda>r. r = offline_warning)
        (logger (async_refresh still_offline_1430 (async_refresh portal_offline after_first_tick)))
       = [offline_warning]"
    by code_simp
  have f: "filter (\<lambda>r. r = offline_warning)
        (logger (async_refresh still_offline_1500
           (async_refresh still_offline_1430 (async_refresh portal_offline after_first_tick))))
       = [offline_warning, offline_warning]"
    by code_simp
  from offline_warning_cooldown [where st = after_first_tick and w = portal_offline
      and ?t0.0 = "at 2025 1 15 14 0 0" and ?t1.0 = "at 2025 1 15 14 30 0"
      and ?t2.0 = "at 2025 1 15 15 0 1"] a b c d e f
  show ?thesis by blast
qed

section \<open>The shape of a tick\<close>

lemma tick_cases [case_names opendata_mode skipped raised offline completed]:
  obtains
    "is_opendata_mode st"
    "async_update_data w st = (Inr empty_data, calendar_step w (opendata_step w st))"
  | "\<not> is_opendata_mode st" "\<not> portal_due w st"
    "async_update_data w st = (Inr empty_data, finish w (calendar_step w (opendata_step w st)))"
  | e d2 st2 where "\<not> is_opendata_mode st" "portal_due w st"
    "portal_try w empty_data (calendar_step w (opendata_step w st)) = (Raised e, d2, st2)"
    "async_update_data w st = (Inl (update_failed_of e), log_exn e st2)"
  | d2 st2 where "\<not> is_opendata_mode st" "portal_due w st"
    "portal_try w empty_data (calendar_step w (opendata_step w st)) = (Offline, d2, st2)"
    "async_update_data w st = (Inr d2, st2)"
  | d2 st2 where "\<not> is_opendata_mode st" "portal_due w st"
    "portal_try w empty_data (calendar_step w (opendata_step w st)) = (Completed, d2, st2)"
    "async_update_data w st = (Inr d2, finish w st2)"
proof -
  let ?st1 = "calendar_step w (opendata_step w st)"
  obtain out d2 st2 where p: "portal_try w empty_data ?st1 = (out, d2, st2)"
    by (metis prod.collapse)
  show thesis
  proof (cases "is_opendata_mode st")
    case True
    then show ?thesis
      using that(1) by (simp add: async_update_data_def Let_def prelude_frame)
  next
    case mode: False
    show ?thesis
    proof (cases "portal_due w st")
      case False
      with mode show ?thesis
        using that(2) by (simp add: async_update_data_def Let_def prelude_frame)
    next
      case due: True
      show ?thesis
      proof (cases out)
        case (Raised e)
        with mode due p show ?thesis
          using that(3) by (simp add: async_update_data_def Let_def prelude_frame)
      next
        case Offline
        with mode due p show ?thesis
          using that(4) by (simp add: async_update_data_def Let_def prelude_frame)
      next
        case Completed
        with mode due p show ?thesis
          using that(5) by (simp add: async_update_data_def Let_def prelude_frame)
      qed
    qed
  qed
qed

section \<open>Timestamps of the two sources\<close>










section \<open>When the timestamps of the two sources move\<close>









section \<open>The calendar sync across a tick\<close>

lemma none_or_done_opendata_step:
  "none_or_done t (opendata_step w st) = none_or_done t st"
  by (simp add: none_or_done_def task_done_def opendata_step_frame split: option.split)

lemma calendar_started:
  assumes "truthy (calendar_entity_id st)"
    and "peak_handler_events w = Some n"
    and "n \<noteq> last_peak_events_count st"
    and "none_or_done (calendar_sync_task st) st"
  shows "last_peak_events_count (calendar_step w (opendata_step w st)) = n"
    and "calendar_sync_task (calendar_step w (opendata_step w st)) = Some (length (tasks st))"
    and "tasks (calendar_step w (opendata_step w st))
           = tasks st @ [(async_sync_calendar_events, Pending)]"
  using assms
  by (simp_all add: calendar_step_def create_task_def opendata_step_frame
      none_or_done_opendata_step)

lemma calendar_idle:
  assumes "\<not> (truthy (calendar_entity_id st)
      \<and> (\<exists>n. peak_handler_events w = Some n \<and> n \<noteq> last_peak_events_count st)
      \<and> none_or_done (calendar_sync_task st) st)"
  shows "last_peak_events_count (calendar_step w (opendata_step w st)) = last_peak_events_count st"
    and "calendar_sync_task (calendar_step w (opendata_step w st)) = calendar_sync_task st"
    and "tasks (calendar_step w (opendata_step w st)) = tasks st"
  using assms
  by (auto simp: calendar_step_def create_task_def opendata_step_frame
      none_or_done_opendata_step split: option.split)

lemma consumption_step_tasks:
  "tasks (consumption_step w st) = tasks st
   \<or> tasks (consumption_step w st) = tasks st @ [(async_regular_consumption_sync, Pending)]"
  by (simp add: consumption_step_def create_task_def Let_def split: option.split)

lemma finish_tasks:
  "tasks (finish w st) = tasks st
   \<or> tasks (finish w st) = tasks st @ [(async_regular_consumption_sync, Pending)]"
  using consumption_step_tasks [of w "st\<lparr>last_update_success_time := Some (now_utc w)\<rparr>"]
  by (simp add: finish_def)

lemma tick_calendar_fields_all:
  "last_peak_events_count (snd (async_update_data w st))
     = last_peak_events_count (calendar_step w (opendata_step w st))
   \<and> calendar_sync_task (snd (async_update_data w st))
     = calendar_sync_task (calendar_step w (opendata_step w st))
   \<and> calendar_entity_id (snd (async_update_data w st)) = calendar_entity_id st"
proof (cases rule: tick_cases [of st w])
  case opendata_mode
  then show ?thesis by (simp add: calendar_step_frame opendata_step_frame)
next
  case skipped
  then show ?thesis by (simp add: calendar_step_frame opendata_step_frame finish_frame)
next
  case (raised e d2 st2)
  then show ?thesis
    using portal_try_frame(6,7,8) [OF raised(3)]
    by (simp add: calendar_step_frame opendata_step_frame log_exn_frame)
next
  case (offline d2 st2)
  then show ?thesis
    using portal_try_frame(6,7,8) [OF offline(3)]
    by (simp add: calendar_step_frame opendata_step_frame)
next
  case (completed d2 st2)
  then show ?thesis
    using portal_try_frame(6,7,8) [OF completed(3)]
    by (simp add: calendar_step_frame opendata_step_frame finish_frame)
qed

lemma tick_calendar_fields:
  "last_peak_events_count (snd (async_update_data w st))
     = last_peak_events_count (calendar_step w (opendata_step w st))"
  "calendar_sync_task (snd (async_update_data w st))
     = calendar_sync_task (calendar_step w (opendata_step w st))"
  "calendar_entity_id (snd (async_update_data w st)) = calendar_entity_id st"
  using tick_calendar_fields_all [of w st] by simp_all

lemma tick_tasks:
  "tasks (snd (async_update_data w st)) = tasks (calendar_step w (opendata_step w st))
   \<or> tasks (snd (async_update_data w st))
       = tasks (calendar_step w (opendata_step w st)) @ [(async_regular_consumption_sync, Pending)]"
proof (cases rule: tick_cases [of st w])
  case opendata_mode
  then show ?thesis by simp
next
  case skipped
  then show ?thesis
    using finish_tasks [of w "calendar_step w (opendata_step w st)"] by simp
next
  case (raised e d2 st2)
  then show ?thesis
    using portal_try_frame(10) [OF raised(3)] by (simp add: log_exn_frame)
next
  case (offline d2 st2)
  then show ?thesis
    using portal_try_frame(10) [OF offline(3)] by simp
next
  case (completed d2 st2)
  then show ?thesis
    using portal_try_frame(10) [OF completed(3)] finish_tasks [of w st2] by simp
qed

lemma tick_running_calendar:
  "running async_sync_calendar_events (snd (async_update_data w st))
     = running async_sync_calendar_events (calendar_step w (opendata_step w st))"
  using tick_tasks [of w st] by (auto simp: running_def)

lemma tick_calendar_started:
  assumes "truthy (calendar_entity_id st)"
    and "peak_handler_events w = Some n"
    and "n \<noteq> last_peak_events_count st"
    and "none_or_done (calendar_sync_task st) st"
  shows "last_peak_events_count (snd (async_update_data w st)) = n"
    and "calendar_sync_task (snd (async_update_data w st)) = Some (length (tasks st))"
    and "length (tasks st) < length (tasks (snd (async_update_data w st)))"
    and "tasks (snd (async_update_data w st)) ! length (tasks st)
           = (async_sync_calendar_events, Pending)"
    and "running async_sync_calendar_events (snd (async_update_data w st))
           = running async_sync_calendar_events st + 1"
proof -
  note s = calendar_started [OF assms]
  show "last_peak_events_count (snd (async_update_data w st)) = n"
    by (simp add: tick_calendar_fields s)
  show "calendar_sync_task (snd (async_update_data w st)) = Some (length (tasks st))"
    by (simp add: tick_calendar_fields s)
  show "length (tasks st) < length (tasks (snd (async_update_data w st)))"
    using tick_tasks [of w st] by (auto simp: s)
  show "tasks (snd (async_update_data w st)) ! length (tasks st)
           = (async_sync_calendar_events, Pending)"
    using tick_tasks [of w st] by (auto simp: s nth_append)
  show "running async_sync_calendar_events (snd (async_update_data w st))
           = running async_sync_calendar_events st + 1"
    unfolding tick_running_calendar by (simp add: running_def s)
qed

lemma tick_calendar_idle:
  assumes "\<not> (truthy (calendar_entity_id st)
      \<and> (\<exists>n. peak_handler_events w = Some n \<and> n \<noteq> last_peak_events_count st)
      \<and> none_or_done (calendar_sync_task st) st)"
  shows "last_peak_events_count (snd (async_update_data w st)) = last_peak_events_count st"
    and "calendar_sync_task (snd (async_update_data w st)) = calendar_sync_task st"
    and "running async_sync_calendar_events (snd (async_update_data w st))
           = running async_sync_calendar_events st"
    and "tasks (snd (async_update_data w st)) = tasks st
         \<or> tasks (snd (async_update_data w st))
             = tasks st @ [(async_regular_consumption_sync, Pending)]"
  using calendar_idle [OF assms] tick_tasks [of w st]
  unfolding tick_running_calendar
  by (simp_all add: tick_calendar_fields running_def)

lemma finish_task_frame:
  "last_peak_events_count (finish_task h st) = last_peak_events_count st"
  "calendar_sync_task (finish_task h st) = calendar_sync_task st"
  "calendar_entity_id (finish_task h st) = calendar_entity_id st"
  "length (tasks (finish_task h st)) = length (tasks st)"
  by (simp_all add: finish_task_def)

lemma finish_task_done:
  assumes "h < length (tasks st)"
  shows "none_or_done (Some h) (finish_task h st)"
  using assms by (auto simp: none_or_done_def task_done_def finish_task_def)


lemma tick_calendar_changed:
  assumes "last_peak_events_count (snd (async_update_data w st)) \<noteq> last_peak_events_count st"
  shows "none_or_done (calendar_sync_task st) st"
    and "peak_handler_events w = Some (last_peak_events_count (snd (async_update_data w st)))"
    and "calendar_sync_task (snd (async_update_data w st)) = Some (length (tasks st))"
    and "length (tasks st) < length (tasks (snd (async_update_data w st)))"
    and "tasks (snd (async_update_data w st)) ! length (tasks st)
           = (async_sync_calendar_events, Pending)"
proof -
  have "truthy (calendar_entity_id st)
      \<and> (\<exists>n. peak_handler_events w = Some n \<and> n \<noteq> last_peak_events_count st)
      \<and> none_or_done (calendar_sync_task st) st"
    using assms tick_calendar_idle(1) [of st w] by blast
  then obtain n where t: "truthy (calendar_entity_id st)" and p: "peak_handler_events w = Some n"
    and n: "n \<noteq> last_peak_events_count st" and d: "none_or_done (calendar_sync_task st) st"
    by blast
  note s = tick_calendar_started [OF t p n d]
  show "none_or_done (calendar_sync_task st) st" by (rule d)
  show "peak_handler_events w = Some (last_peak_events_count (snd (async_update_data w st)))"
    using p s(1) by simp
  show "calendar_sync_task (snd (async_update_data w st)) = Some (length (tasks st))"
    by (rule s(2))
  show "length (tasks st) < length (tasks (snd (async_update_data w st)))"
    by (rule s(3))
  show "tasks (snd (async_update_data w st)) ! length (tasks st)
           = (async_sync_calendar_events, Pending)"
    by (rule s(4))
qed

lemma tick_calendar_deferred:
  assumes "truthy (calendar_entity_id st)"
    and "peak_handler_events w = Some n"
    and "peak_handler_events w2 = Some n"
    and "n \<noteq> last_peak_events_count st"
    and "calendar_sync_task st = Some h"
    and "h < length (tasks st)"
    and "snd (tasks st ! h) = Pending"
  shows "last_peak_events_count (snd (async_update_data w st)) = last_peak_events_count st"
    and "calendar_sync_task (snd (async_update_data w st)) = Some h"
    and "last_peak_events_count
           (snd (async_update_data w2 (finish_task h (snd (async_update_data w st))))) = n"
    and "calendar_sync_task
           (snd (async_update_data w2 (finish_task h (snd (async_update_data w st)))))
           = Some (length (tasks (snd (async_update_data w st))))"
    and "tasks (snd (async_update_data w2 (finish_task h (snd (async_update_data w st)))))
           ! length (tasks (snd (async_update_data w st)))
           = (async_sync_calendar_events, Pending)"
proof -
  let ?st1 = "snd (async_update_data w st)"
  let ?st2 = "finish_task h ?st1"
  have busy: "\<not> (truthy (calendar_entity_id st)
      \<and> (\<exists>n. peak_handler_events w = Some n \<and> n \<noteq> last_peak_events_count st)
      \<and> none_or_done (calendar_sync_task st) st)"
    using assms(5,7) by (simp add: none_or_done_def task_done_def)
  note i = tick_calendar_idle [OF busy]
  show c1: "last_peak_events_count ?st1 = last_peak_events_count st" by (rule i(1))
  show h1: "calendar_sync_task ?st1 = Some h" using i(2) assms(5) by simp
  have len: "h < length (tasks ?st1)" using i(4) assms(6) by auto
  have t2: "truthy (calendar_entity_id ?st2)"
    using assms(1) by (simp add: finish_task_frame tick_calendar_fields)
  have n2: "n \<noteq> last_peak_events_count ?st2"
    using assms(4) c1 by (simp add: finish_task_frame)
  have d2: "none_or_done (calendar_sync_task ?st2) ?st2"
    using finish_task_done [OF len] h1 by (simp add: finish_task_frame)
  note s = tick_calendar_started [OF t2 assms(3) n2 d2]
  show "last_peak_events_count (snd (async_update_data w2 ?st2)) = n" by (rule s(1))
  show "calendar_sync_task (snd (async_update_data w2 ?st2)) = Some (length (tasks ?st1))"
    using s(2) by (simp add: finish_task_frame)
  show "tasks (snd (async_update_data w2 ?st2)) ! length (tasks ?st1)
          = (async_sync_calendar_events, Pending)"
    using s(4) by (simp add: finish_task_frame)
qed

section \<open>The trigger of the calendar sync\<close>

text \<open>
  C10. Across one tick the recorded count of peak events changes only if a calendar sync was
  started in that tick: then no earlier calendar task was still running, the new count is
  the observed one, and the handle names a new pending task of the event loop. When the
  calendar entity is configured, the observed count differs from the recorded one and the
  earlier calendar task is still running, the tick starts no calendar task and leaves the
  recorded count and the handle as they were; when instead no calendar task is running, the
  tick starts one and records the observed count. So a change seen while a sync runs is
  kept: once that task has finished, a later tick that still observes the changed count
  starts the sync and records the count.
\<close>

theorem calendar_trigger_deferred:
  "(let st' = snd (async_update_data w st) in
      (last_peak_events_count st' \<noteq> last_peak_events_count st \<longrightarrow>
         none_or_done (calendar_sync_task st) st
         \<and> peak_handler_events w = Some (last_peak_events_count st')
         \<and> calendar_sync_task st' = Some (length (tasks st))
         \<and> length (tasks st) < length (tasks st')
         \<and> tasks st' ! length (tasks st) = (async_sync_calendar_events, Pending))
      \<and> (truthy (calendar_entity_id st) \<and> peak_handler_events w = Some n
           \<and> n \<noteq> last_peak_events_count st \<and> \<not> none_or_done (calendar_sync_task st) st \<longrightarrow>
         last_peak_events_count st' = last_peak_events_count st
         \<and> calendar_sync_task st' = calendar_sync_task st
         \<and> running async_sync_calendar_events st' = running async_sync_calendar_events st)
      \<and> (truthy (calendar_entity_id st) \<and> peak_handler_events w = Some n
           \<and> n \<noteq> last_peak_events_count st \<and> none_or_done (calendar_sync_task st) st \<longrightarrow>
         last_peak_events_count st' = n
         \<and> calendar_sync_task st' = Some (length (tasks st))
         \<and> tasks st' ! length (tasks st) = (async_sync_calendar_events, Pending)
         \<and> running async_sync_calendar_events st' = running async_sync_calendar_events st + 1)
      \<and> (truthy (calendar_entity_id st) \<and> peak_handler_events w = Some n
           \<and> peak_handler_events w2 = Some n \<and> n \<noteq> last_peak_events_count st
           \<and> calendar_sync_task st = Some h \<and> h < length (tasks st)
           \<and> snd (tasks st ! h) = Pending \<longrightarrow>
         (let st3 = snd (async_update_data w2 (finish_task h st')) in
            last_peak_events_count st' = last_peak_events_count st
            \<and> calendar_sync_task st' = Some h
            \<and> last_peak_events_count st3 = n
            \<and> calendar_sync_task st3 = Some (length (tasks st'))
            \<and> tasks st3 ! length (tasks st') = (async_sync_calendar_events, Pending))))"
proof -
  let ?st' = "snd (async_update_data w st)"
  have a: "last_peak_events_count ?st' \<noteq> last_peak_events_count st \<longrightarrow>
         none_or_done (calendar_sync_task st) st
         \<and> peak_handler_events w = Some (last_peak_events_count ?st')
         \<and> calendar_sync_task ?st' = Some (length (tasks st))
         \<and> length (tasks st) < length (tasks ?st')
         \<and> tasks ?st' ! length (tasks st) = (async_sync_calendar_events, Pending)"
    using tick_calendar_changed [of w st] by blast
  have b: "truthy (calendar_entity_id st) \<and> peak_handler_events w = Some n
           \<and> n \<noteq> last_peak_events_count st \<and> \<not> none_or_done (calendar_sync_task st) st \<longrightarrow>
         last_peak_events_count ?st' = last_peak_events_count st
         \<and> calendar_sync_task ?st' = calendar_sync_task st
         \<and> running async_sync_calendar_events ?st' = running async_sync_calendar_events st"
    using tick_calendar_idle(1,2,3) [of st w] by blast
  have c: "truthy (calendar_entity_id st) \<and> peak_handler_events w = Some n
           \<and> n \<noteq> last_peak_events_count st \<and> none_or_done (calendar_sync_task st) st \<longrightarrow>
         last_peak_events_count ?st' = n
         \<and> calendar_sync_task ?st' = Some (length (tasks st))
         \<and> tasks ?st' ! length (tasks st) = (async_sync_calendar_events, Pending)
         \<and> running async_sync_calendar_events ?st' = running async_sync_calendar_events st + 1"
    using tick_calendar_started [of st w n] by blast
  have d: "truthy (calendar_entity_id st) \<and> peak_handler_events w = Some n
           \<and> peak_handler_events w2 = Some n \<and> n \<noteq> last_peak_events_count st
           \<and> calendar_sync_task st = Some h \<and> h < length (tasks st)
           \<and> snd (tasks st ! h) = Pending \<longrightarrow>
            last_peak_events_count ?st' = last_peak_events_count st
            \<and> calendar_sync_task ?st' = Some h
            \<and> last_peak_events_count (snd (async_update_data w2 (finish_task h ?st'))) = n
            \<and> calendar_sync_task (snd (async_update_data w2 (finish_task h ?st')))
                = Some (length (tasks ?st'))
            \<and> tasks (snd (async_update_data w2 (finish_task h ?st'))) ! length (tasks ?st')
                = (async_sync_calendar_events, Pending)"
    using tick_calendar_deferred [of st w n w2 h] by blast
  show ?thesis
    unfolding Let_def by (intro conjI a b c d)
qed



text \<open>
  The first tick of the household observes two events and starts the calendar sync, task 0.
  At 11:02 a third event is observed while task 0 is still pending: nothing is started and
  the recorded count stays 2. Task 0 finishes; at 11:07 the tick starts task 2 and records
  the count 3.
\<close>

theorem calendar_trigger_deferred_witness:
  "truthy (calendar_entity_id portal_home)
   \<and> peak_handler_events (calm (at 2025 1 15 10 58 0)) = Some 2
   \<and> 2 \<noteq> last_peak_events_count portal_home
   \<and> none_or_done (calendar_sync_task portal_home) portal_home
   \<and> last_peak_events_count (snd (async_update_data (calm (at 2025 1 15 10 58 0)) portal_home)) = 2
   \<and> truthy (calendar_entity_id after_first_tick)
   \<and> peak_handler_events third_event_1102 = Some 3
   \<and> peak_handler_events third_event_1107 = Some 3
   \<and> 3 \<noteq> last_peak_events_count after_first_tick
   \<and> calendar_sync_task after_first_tick = Some 0
   \<and> 0 < length (tasks after_first_tick)
   \<and> snd (tasks after_first_tick ! 0) = Pending
   \<and> last_peak_events_count (snd (async_update_data third_event_1102 after_first_tick))
        = last_peak_events_count after_first_tick
   \<and> last_peak_events_count after_first_tick = 2
   \<and> calendar_sync_task (snd (async_update_data third_event_1102 after_first_tick)) = Some 0
   \<and> last_peak_events_count (snd (async_update_data third_event_1107
        (finish_task 0 (snd (async_update_data third_event_1102 after_first_tick))))) = 3
   \<and> calendar_sync_task (snd (async_update_data third_event_1107
        (finish_task 0 (snd (async_update_data third_event_1102 after_first_tick)))))
        = Some (length (tasks (snd (async_update_data third_event_1102 after_first_tick))))
   \<and> length (tasks (snd (async_update_data third_event_1102 after_first_tick))) = 2"
proof -
  have a: "truthy (calendar_entity_id portal_home)" by code_simp
  have b: "peak_handler_events (calm (at 2025 1 15 10 58 0)) = Some 2" by code_simp
  have c: "2 \<noteq> last_peak_events_count portal_home" by code_simp
  have d: "none_or_done (calendar_sync_task portal_home) portal_home" by code_simp
  have f: "truthy (calendar_entity_id after_first_tick)" by code_simp
  have g: "peak_handler_events third_event_1102 = Some 3" by code_simp
  have h: "peak_handler_events third_event_1107 = Some 3" by code_simp
  have i: "3 \<noteq> last_peak_events_count after_first_tick" by code_simp
  have j: "calendar_sync_task after_first_tick = Some 0" by code_simp
  have k: "snd (tasks after_first_tick ! 0) = Pending" by code_simp
  have l: "0 < length (tasks after_first_tick)" by code_simp
  have m: "last_peak_events_count after_first_tick = 2" by code_simp
  have o: "length (tasks (snd (async_update_data third_event_1102 after_first_tick))) = 2"
    by code_simp
  have started: "truthy (calendar_entity_id portal_home)
      \<and> peak_handler_events (calm (at 2025 1 15 10 58 0)) = Some 2
      \<and> 2 \<noteq> last_peak_events_count portal_home
      \<and> none_or_done (calendar_sync_task portal_home) portal_home"
    by (intro conjI a b c d)
  have deferred: "truthy (calendar_entity_id after_first_tick)
      \<and> peak_handler_events third_event_1102 = Some 3
      \<and> peak_handler_events third_event_1107 = Some 3
      \<and> 3 \<noteq> last_peak_events_count after_first_tick
      \<and> calendar_sync_task after_first_tick = Some 0
      \<and> 0 < length (tasks after_first_tick)
      \<and> snd (tasks after_first_tick ! 0) = Pending"
    by (intro conjI f g h i j k l)
  note first = calendar_trigger_deferred [where w = "calm (at 2025 1 15 10 58 0)"
      and st = portal_home and n = 2, unfolded Let_def,
      THEN conjunct2, THEN conjunct2, THEN conjunct1, THEN mp, OF started]
  note later = calendar_trigger_deferred [where w = third_event_1102
      and st = after_first_tick and n = 3 and ?w2.0 = third_event_1107 and h = 0,
      unfolded Let_def,
      THEN conjunct2, THEN conjunct2, THEN conjunct2, THEN mp, OF deferred]
  show ?thesis
    by (intro conjI a b c d f g h i j k l m o first [THEN conjunct1]
        later [THEN conjunct1] later [THEN conjunct2, THEN conjunct1]
        later [THEN conjunct2, THEN conjunct2, THEN conjunct1]
        later [THEN conjunct2, THEN conjunct2, THEN conjunct2, THEN conjunct1])
qed

section \<open>The consumption sync is not kept single\<close>

text \<open>
  While a calendar task is still running, a tick starts no further one, whatever else
  happens in it.
\<close>

lemma calendar_sync_not_doubled:
  assumes "\<not> none_or_done (calendar_sync_task st) st"
  shows "running async_sync_calendar_events (snd (async_update_data w st))
           = running async_sync_calendar_events st"
  using assms by (intro tick_calendar_idle(3)) blast


text \<open>
  C3 at a concrete input. The first tick of the household started a consumption sync, task 1
  of the event loop. At noon that task is still pending, 3720 seconds have passed since it
  was started, and the tick starts a second consumption sync beside it: two pending tasks
  run the same coroutine, and the handle of the first is overwritten.
\<close>

theorem consumption_sync_started_twice:
  "is_portal_mode after_first_tick
   \<and> regular_sync_task after_first_tick = Some 1
   \<and> tasks after_first_tick ! 1 = (async_regular_consumption_sync, Pending)
   \<and> running async_regular_consumption_sync after_first_tick = 1
   \<and> fst (async_update_data at_noon after_first_tick) = Inr empty_data
   \<and> running async_regular_consumption_sync (snd (async_update_data at_noon after_first_tick)) = 2
   \<and> regular_sync_task (snd (async_update_data at_noon after_first_tick)) = Some 2"
  by code_simp

end
